theory Spec2Isabelle
  imports Main "HOL-Library.Word"
begin

section \<open>Text and bytes\<close>

text \<open>
  The module \<^verbatim>\<open>Modulos/requisicoes.py\<close> works on Python \<^verbatim>\<open>str\<close> and \<^verbatim>\<open>bytes\<close> values.
  A \<^verbatim>\<open>str\<close> is a sequence of Unicode code points, modelled as a list of naturals; a
  \<^verbatim>\<open>bytes\<close> value is a list of 8-bit words. \<open>lit\<close> reads an ASCII literal of the
  source as a \<^verbatim>\<open>str\<close>.
\<close>

type_synonym str = "nat list"
type_synonym bytes = "8 word list"

definition lit :: "string \<Rightarrow> str" where
  "lit cs = map of_char cs"

text \<open>
  \<^verbatim>\<open>str.encode()\<close>: UTF-8, one to four bytes for each code point of the text. The
  text a caller passes (URL, parameters, credentials) is taken to be Unicode text, that
  is, without lone surrogates, for which the codec has no encoding.
\<close>

definition utf8_cp :: "nat \<Rightarrow> nat list" where
  "utf8_cp c =
     (if c < 0x80 then [c]
      else if c < 0x800 then [0xC0 + c div 64, 0x80 + c mod 64]
      else if c < 0x10000 then [0xE0 + c div 4096, 0x80 + (c div 64) mod 64, 0x80 + c mod 64]
      else [0xF0 + c div 262144, 0x80 + (c div 4096) mod 64, 0x80 + (c div 64) mod 64,
            0x80 + c mod 64])"

definition encode_utf8 :: "str \<Rightarrow> bytes" where
  "encode_utf8 s = map of_nat (concat (map utf8_cp s))"

section \<open>Query strings: \<^verbatim>\<open>_montar_url_com_params\<close>\<close>

text \<open>
  \<^verbatim>\<open>urllib.parse.urlencode(params)\<close> with its defaults: every key and value goes through
  \<^verbatim>\<open>quote_plus\<close> (the unreserved characters stay, a space becomes \<^verbatim>\<open>+\<close>, every other byte
  of the UTF-8 encoding becomes \<^verbatim>\<open>%XX\<close> in upper-case hexadecimal), the pairs are written
  \<^verbatim>\<open>key=value\<close> and joined by \<^verbatim>\<open>&\<close>, in the order of the dictionary. A dictionary whose
  order matters is a list of pairs.
\<close>

definition always_safe :: "nat \<Rightarrow> bool" where
  "always_safe b =
     ((0x41 \<le> b \<and> b \<le> 0x5A) \<or> (0x61 \<le> b \<and> b \<le> 0x7A) \<or> (0x30 \<le> b \<and> b \<le> 0x39)
      \<or> b = 0x5F \<or> b = 0x2E \<or> b = 0x2D \<or> b = 0x7E)"

definition hex_upper :: "nat \<Rightarrow> nat" where
  "hex_upper d = (if d < 10 then 0x30 + d else 0x37 + d)"

definition quote_byte :: "nat \<Rightarrow> str" where
  "quote_byte b =
     (if always_safe b then [b]
      else if b = 0x20 then lit ''+''
      else lit ''%'' @ [hex_upper (b div 16), hex_upper (b mod 16)])"

definition quote_plus :: "str \<Rightarrow> str" where
  "quote_plus s = concat (map quote_byte (concat (map utf8_cp s)))"

fun join :: "str \<Rightarrow> str list \<Rightarrow> str" where
  "join sep [] = []"
| "join sep [x] = x"
| "join sep (x # y # ys) = x @ sep @ join sep (y # ys)"

definition urlencode :: "(str \<times> str) list \<Rightarrow> str" where
  "urlencode query = join (lit ''&'') (map (\<lambda>(k, v). quote_plus k @ lit ''='' @ quote_plus v) query)"

text \<open>
  An optional dictionary argument is \<open>None\<close> or \<open>Some d\<close>; Python's \<^verbatim>\<open>if params:\<close> holds
  for a dictionary that is present and not empty.
\<close>

fun truthy :: "'a list option \<Rightarrow> bool" where
  "truthy None = False"
| "truthy (Some d) = (d \<noteq> [])"

text \<open>
  \<^verbatim>\<open>
  def _montar_url_com_params(url, params):
      if params:
          query_string = urllib.parse.urlencode(params)
          if '?' in url:
              return f"{url}&{query_string}"
          else:
              return f"{url}?{query_string}"
      return url
  \<close>
\<close>

definition montar_url_com_params :: "str \<Rightarrow> (str \<times> str) list option \<Rightarrow> str" where
  "montar_url_com_params url params =
     (if truthy params then
        (let query_string = urlencode (the params) in
         if 0x3F \<in> set url then url @ lit ''&'' @ query_string
         else url @ lit ''?'' @ query_string)
      else url)"

section \<open>Properties of \<^verbatim>\<open>_montar_url_com_params\<close>\<close>



section \<open>Authentication headers: \<^verbatim>\<open>_adicionar_autenticacao\<close>\<close>

text \<open>
  The exceptions that can leave the calls made by the module. \<open>URLError reason\<close> and
  \<open>HTTPError code reason\<close> are the two classes of \<^verbatim>\<open>urllib.error\<close> the module names;
  \<open>UnicodeDecodeError\<close> is raised by \<^verbatim>\<open>bytes.decode('utf-8')\<close>; \<open>OutraExcecao name\<close> is an
  exception of any other class (a \<^verbatim>\<open>ValueError\<close> for a URL without a scheme, a
  \<^verbatim>\<open>TimeoutError\<close> while the body is read, ...).
\<close>

datatype exn = URLError str | HTTPError int str | UnicodeDecodeError | OutraExcecao str

text \<open>
  \<^verbatim>\<open>bytes.decode('utf-8')\<close> with the default strict error handling: overlong forms,
  surrogates, code points above U+10FFFF, stray continuation bytes and truncated
  sequences raise \<^verbatim>\<open>UnicodeDecodeError\<close> (\<open>None\<close> in \<open>utf8_decode\<close>).
\<close>

definition cont :: "nat \<Rightarrow> bool" where
  "cont b = (0x80 \<le> b \<and> b \<le> 0xBF)"

fun utf8_decode :: "nat list \<Rightarrow> str option" where
  "utf8_decode [] = Some []"
| "utf8_decode (b # bs) =
     (if b < 0x80 then map_option (Cons b) (utf8_decode bs)
      else if 0xC2 \<le> b \<and> b \<le> 0xDF then
        (case bs of
           b1 # r \<Rightarrow>
             (if cont b1 then map_option (Cons ((b - 0xC0) * 64 + (b1 - 0x80))) (utf8_decode r)
              else None)
         | _ \<Rightarrow> None)
      else if 0xE0 \<le> b \<and> b \<le> 0xEF then
        (case bs of
           b1 # b2 # r \<Rightarrow>
             (let c = (b - 0xE0) * 4096 + (b1 - 0x80) * 64 + (b2 - 0x80) in
              if cont b1 \<and> cont b2 \<and> 0x800 \<le> c \<and> (c < 0xD800 \<or> 0xDFFF < c)
              then map_option (Cons c) (utf8_decode r) else None)
         | _ \<Rightarrow> None)
      else if 0xF0 \<le> b \<and> b \<le> 0xF4 then
        (case bs of
           b1 # b2 # b3 # r \<Rightarrow>
             (let c = (b - 0xF0) * 262144 + (b1 - 0x80) * 4096 + (b2 - 0x80) * 64 + (b3 - 0x80) in
              if cont b1 \<and> cont b2 \<and> cont b3 \<and> 0x10000 \<le> c \<and> c \<le> 0x10FFFF
              then map_option (Cons c) (utf8_decode r) else None)
         | _ \<Rightarrow> None)
      else None)"

definition decode_utf8 :: "bytes \<Rightarrow> exn + str" where
  "decode_utf8 bs =
     (case utf8_decode (map unat bs) of None \<Rightarrow> Inl UnicodeDecodeError | Some s \<Rightarrow> Inr s)"

text \<open>
  \<^verbatim>\<open>base64.b64encode\<close>: three bytes become four characters of the alphabet
  \<^verbatim>\<open>A-Z a-z 0-9 + /\<close>, and a last group of one or two bytes is padded with \<^verbatim>\<open>=\<close>.
\<close>

definition b64_char :: "nat \<Rightarrow> nat" where
  "b64_char i =
     (if i < 26 then 0x41 + i
      else if i < 52 then 0x61 + (i - 26)
      else if i < 62 then 0x30 + (i - 52)
      else if i = 62 then 0x2B
      else 0x2F)"

fun b64_chars :: "nat list \<Rightarrow> nat list" where
  "b64_chars [] = []"
| "b64_chars [a] = [b64_char (a div 4), b64_char ((a mod 4) * 16), 0x3D, 0x3D]"
| "b64_chars [a, b] =
     [b64_char (a div 4), b64_char ((a mod 4) * 16 + b div 16), b64_char ((b mod 16) * 4), 0x3D]"
| "b64_chars (a # b # c # r) =
     [b64_char (a div 4), b64_char ((a mod 4) * 16 + b div 16),
      b64_char ((b mod 16) * 4 + c div 64), b64_char (c mod 64)] @ b64_chars r"

definition b64encode :: "bytes \<Rightarrow> bytes" where
  "b64encode bs = map of_nat (b64_chars (map unat bs))"

text \<open>
  \<^verbatim>\<open>
  def _adicionar_autenticacao(auth):
      headers = {}
      if 'token' in auth:
          headers['Authorization'] = f"Bearer {auth['token']}"
      elif 'username' in auth and 'password' in auth:
          base64_credentials = base64.b64encode(
              f"{auth['username']}:{auth['password']}".encode()).decode('utf-8')
          headers['Authorization'] = f"Basic {base64_credentials}"
      return headers
  \<close>
  The descriptor and the headers are dictionaries from text to text.
\<close>

definition adicionar_autenticacao :: "(str \<rightharpoonup> str) \<Rightarrow> exn + (str \<rightharpoonup> str)" where
  "adicionar_autenticacao auth =
     (case auth (lit ''token'') of
        Some token \<Rightarrow> Inr [lit ''Authorization'' \<mapsto> lit ''Bearer '' @ token]
      | None \<Rightarrow>
          (case auth (lit ''username'') of
             None \<Rightarrow> Inr Map.empty
           | Some username \<Rightarrow>
               (case auth (lit ''password'') of
                  None \<Rightarrow> Inr Map.empty
                | Some password \<Rightarrow>
                    (case decode_utf8 (b64encode (encode_utf8 (username @ lit '':'' @ password))) of
                       Inl e \<Rightarrow> Inl e
                     | Inr base64_credentials \<Rightarrow>
                         Inr [lit ''Authorization'' \<mapsto> lit ''Basic '' @ base64_credentials]))))"


section \<open>Properties of \<^verbatim>\<open>_adicionar_autenticacao\<close>\<close>

lemma utf8_decode_ascii: "list_all (\<lambda>b. b < 0x80) bs \<Longrightarrow> utf8_decode bs = Some bs"
  by (induction bs) simp_all

lemma b64_char_ascii: "b64_char i < 0x80"
  unfolding b64_char_def by (simp split: if_splits) arith

lemma b64_chars_ascii: "list_all (\<lambda>b. b < 0x80) (b64_chars bs)"
  by (induction bs rule: b64_chars.induct) (simp_all add: b64_char_ascii)

lemma unat_of_nat_ascii:
  "list_all (\<lambda>b. b < 0x80) xs \<Longrightarrow> map unat (map of_nat xs :: bytes) = xs"
  by (induction xs) (simp_all add: unat_of_nat)

lemma decode_b64encode: "decode_utf8 (b64encode bs) = Inr (b64_chars (map unat bs))"
  using unat_of_nat_ascii [OF b64_chars_ascii, of "map unat bs"]
    utf8_decode_ascii [OF b64_chars_ascii, of "map unat bs"]
  by (simp add: decode_utf8_def b64encode_def del: map_map)



section \<open>JSON: \<^verbatim>\<open>json.loads\<close> and \<^verbatim>\<open>json.dumps\<close>\<close>

text \<open>
  The values \<^verbatim>\<open>json.loads\<close> builds: \<^verbatim>\<open>None\<close>, \<^verbatim>\<open>bool\<close>, \<^verbatim>\<open>int\<close> (unbounded), \<^verbatim>\<open>float\<close>,
  \<^verbatim>\<open>str\<close>, \<^verbatim>\<open>list\<close> and \<^verbatim>\<open>dict\<close> (keys in insertion order). A float read from a number
  with a fraction or an exponent is kept as its lexeme: what \<^verbatim>\<open>json.dumps\<close> writes for
  it (\<^verbatim>\<open>float.__repr__\<close> of the nearest double) is a parameter \<open>floatrepr\<close> of the
  model, from the lexeme to the text written. The limits of an interpreter (the depth of
  recursion, the number of digits of an integer) are not part of the model.
\<close>

datatype json =
  JNull | JBool bool | JInt int | JFloat str | JNaN | JInfinity | JNegInfinity
  | JStr str | JArray "json list" | JObject "(str \<times> json) list"

datatype tok =
  TLBrace | TRBrace | TLBrack | TRBrack | TColon | TComma | TStr str | TValue json

subsection \<open>Reading\<close>

definition is_ws :: "nat \<Rightarrow> bool" where
  "is_ws c = (c = 0x20 \<or> c = 0x09 \<or> c = 0x0A \<or> c = 0x0D)"

definition is_digit :: "nat \<Rightarrow> bool" where
  "is_digit c = (0x30 \<le> c \<and> c \<le> 0x39)"

definition hex_val :: "nat \<Rightarrow> nat option" where
  "hex_val c =
     (if 0x30 \<le> c \<and> c \<le> 0x39 then Some (c - 0x30)
      else if 0x61 \<le> c \<and> c \<le> 0x66 then Some (c - 0x61 + 10)
      else if 0x41 \<le> c \<and> c \<le> 0x46 then Some (c - 0x41 + 10)
      else None)"

definition hex4 :: "nat \<Rightarrow> nat \<Rightarrow> nat \<Rightarrow> nat \<Rightarrow> nat option" where
  "hex4 a b c d =
     (case (hex_val a, hex_val b, hex_val c, hex_val d) of
        (Some x, Some y, Some z, Some w) \<Rightarrow> Some (((x * 16 + y) * 16 + z) * 16 + w)
      | _ \<Rightarrow> None)"

text \<open>The one-character escapes after a backslash: \<^verbatim>\<open>" \ / b f n r t\<close>.\<close>

definition unescape :: "nat \<Rightarrow> nat option" where
  "unescape e =
     (if e = 0x22 then Some 0x22 else if e = 0x5C then Some 0x5C else if e = 0x2F then Some 0x2F
      else if e = 0x62 then Some 0x08 else if e = 0x66 then Some 0x0C
      else if e = 0x6E then Some 0x0A else if e = 0x72 then Some 0x0D
      else if e = 0x74 then Some 0x09 else None)"

definition put :: "nat \<Rightarrow> (str \<times> str) option \<Rightarrow> (str \<times> str) option" where
  "put c r = map_option (\<lambda>(s, rest). (c # s, rest)) r"

definition take_hex4 :: "str \<Rightarrow> (nat \<times> str) option" where
  "take_hex4 s =
     (case s of
        h1 # h2 # h3 # h4 # r \<Rightarrow> map_option (\<lambda>u. (u, r)) (hex4 h1 h2 h3 h4)
      | _ \<Rightarrow> None)"

text \<open>
  After \<^verbatim>\<open>\u\<close>: four hexadecimal digits. A high surrogate followed by the escape of a
  low surrogate is one code point; a lone surrogate stays as it is.
\<close>

definition scan_u :: "str \<Rightarrow> (nat \<times> str) option" where
  "scan_u s =
     (case take_hex4 s of
        None \<Rightarrow> None
      | Some (uni, r1) \<Rightarrow>
          (if 0xD800 \<le> uni \<and> uni \<le> 0xDBFF \<and> take 2 r1 = [0x5C, 0x75] then
             (case take_hex4 (drop 2 r1) of
                None \<Rightarrow> None
              | Some (uni2, r2) \<Rightarrow>
                  (if 0xDC00 \<le> uni2 \<and> uni2 \<le> 0xDFFF
                   then Some (0x10000 + (uni - 0xD800) * 1024 + (uni2 - 0xDC00), r2)
                   else Some (uni, r1)))
           else Some (uni, r1)))"

text \<open>After a backslash: \<^verbatim>\<open>u\<close> and four digits, or a one-character escape.\<close>

definition scan_escape :: "str \<Rightarrow> (nat \<times> str) option" where
  "scan_escape s =
     (case s of
        [] \<Rightarrow> None
      | e # r \<Rightarrow> if e = 0x75 then scan_u r else map_option (\<lambda>ch. (ch, r)) (unescape e))"

lemma take_hex4_length: "take_hex4 s = Some (u, r) \<Longrightarrow> length s = length r + 4"
  by (auto simp: take_hex4_def split: list.splits)

lemma scan_u_shorter: "scan_u s = Some (u, r) \<Longrightarrow> length r < length s"
  by (auto simp: scan_u_def split: option.splits if_splits dest!: take_hex4_length)

lemma scan_escape_shorter: "scan_escape s = Some (u, r) \<Longrightarrow> length r < length s"
  by (auto simp: scan_escape_def split: list.splits if_splits dest: scan_u_shorter)

text \<open>
  \<open>scanstring\<close> reads a string after its opening quote and returns its content and the
  text left after the closing quote. A control character is refused (strict mode), as
  is the end of the text before the closing quote.
\<close>

function scanstring :: "str \<Rightarrow> (str \<times> str) option" where
  "scanstring [] = None"
| "scanstring (c # cs) =
     (if c = 0x22 then Some ([], cs)
      else if c = 0x5C then
        (case scan_escape cs of None \<Rightarrow> None | Some (ch, r) \<Rightarrow> put ch (scanstring r))
      else if c < 0x20 then None
      else put c (scanstring cs))"
  by pat_completeness auto
termination
  by (relation "measure length") (auto dest: scan_escape_shorter)

lemma scanstring_shorter: "scanstring s = Some (x, r) \<Longrightarrow> length r < length s"
proof (induction s arbitrary: x rule: scanstring.induct)
  case 1
  then show ?case by simp
next
  case (2 c cs)
  show ?case
  proof (cases "c = 0x22")
    case True
    with "2.prems" show ?thesis by simp
  next
    case quote: False
    show ?thesis
    proof (cases "c = 0x5C")
      case True
      with quote "2.prems" obtain ch r1 x1
        where esc: "scan_escape cs = Some (ch, r1)" and rest: "scanstring r1 = Some (x1, r)"
        by (auto simp: put_def split: option.splits)
      from "2.IH"(1) [OF quote True esc refl rest] scan_escape_shorter [OF esc]
      show ?thesis by simp
    next
      case False
      with quote "2.prems" obtain x1 where rest: "scanstring cs = Some (x1, r)" and "\<not> c < 0x20"
        by (auto simp: put_def split: if_splits)
      from "2.IH"(2) [OF quote False this(2) rest] show ?thesis by simp
    qed
  qed
qed

text \<open>
  Numbers, as the scanner's pattern \<^verbatim>\<open>(-?(?:0|[1-9][0-9]*))(\.[0-9]+)?([eE][-+]?[0-9]+)?\<close>
  matches them: the integer part, then the longest fraction and exponent that are
  complete. With neither fraction nor exponent the number is an \<^verbatim>\<open>int\<close>.
\<close>

definition match_int :: "str \<Rightarrow> (str \<times> str) option" where
  "match_int s =
     (let sg = (case s of [] \<Rightarrow> [] | c # r \<Rightarrow> if c = 0x2D then [c] else []);
          s1 = drop (length sg) s
      in case s1 of
           [] \<Rightarrow> None
         | d # r \<Rightarrow>
             (if d = 0x30 then Some (sg @ [d], r)
              else if is_digit d then Some (sg @ d # takeWhile is_digit r, dropWhile is_digit r)
              else None))"

definition match_frac :: "str \<Rightarrow> str \<times> str" where
  "match_frac s =
     (case s of
        c # d # r \<Rightarrow>
          (if c = 0x2E \<and> is_digit d then (c # d # takeWhile is_digit r, dropWhile is_digit r)
           else ([], s))
      | _ \<Rightarrow> ([], s))"

definition match_exp :: "str \<Rightarrow> str \<times> str" where
  "match_exp s =
     (case s of
        [] \<Rightarrow> ([], s)
      | e # r \<Rightarrow>
          (if e = 0x65 \<or> e = 0x45 then
             (let sg = (case r of [] \<Rightarrow> [] | c # t \<Rightarrow> if c = 0x2B \<or> c = 0x2D then [c] else []);
                  r1 = drop (length sg) r
              in case r1 of
                   [] \<Rightarrow> ([], s)
                 | d # t \<Rightarrow>
                     (if is_digit d then (e # sg @ d # takeWhile is_digit t, dropWhile is_digit t)
                      else ([], s)))
           else ([], s)))"

definition int_of_digits :: "str \<Rightarrow> int" where
  "int_of_digits ds = foldl (\<lambda>a d. 10 * a + int (d - 0x30)) 0 ds"

definition int_of_lexeme :: "str \<Rightarrow> int" where
  "int_of_lexeme s =
     (case s of
        [] \<Rightarrow> 0
      | c # r \<Rightarrow> if c = 0x2D then - int_of_digits r else int_of_digits s)"

definition match_number :: "str \<Rightarrow> (json \<times> str) option" where
  "match_number s =
     (case match_int s of
        None \<Rightarrow> None
      | Some (integer, r1) \<Rightarrow>
          (let (frac, r2) = match_frac r1; (exp, r3) = match_exp r2
           in if frac = [] \<and> exp = [] then Some (JInt (int_of_lexeme integer), r3)
              else Some (JFloat (integer @ frac @ exp), r3)))"

lemma length_dropWhile_le_Suc: "length (dropWhile P xs) \<le> Suc (length xs)"
  by (simp add: le_SucI length_dropWhile_le)

lemma match_int_shorter: "match_int s = Some (x, r) \<Longrightarrow> length r < length s"
  by (cases s)
    (auto simp: match_int_def Let_def less_Suc_eq_le length_dropWhile_le length_dropWhile_le_Suc
      split: if_splits list.splits)

lemma match_frac_shorter: "match_frac s = (x, r) \<Longrightarrow> length r \<le> length s"
  by (auto simp: match_frac_def le_SucI length_dropWhile_le split: if_splits list.splits)

lemma match_exp_shorter: "match_exp s = (x, r) \<Longrightarrow> length r \<le> length s"
  by (cases s)
    (auto simp: match_exp_def Let_def le_SucI length_dropWhile_le split: if_splits list.splits)

lemma match_number_shorter: "match_number s = Some (v, r) \<Longrightarrow> length r < length s"
proof -
  assume m: "match_number s = Some (v, r)"
  then obtain i r1 where i: "match_int s = Some (i, r1)"
    by (auto simp: match_number_def split: option.splits)
  obtain f r2 where f: "match_frac r1 = (f, r2)" by (cases "match_frac r1")
  obtain e r3 where e: "match_exp r2 = (e, r3)" by (cases "match_exp r2")
  from m i f e have "r = r3" by (auto simp: match_number_def split: if_splits)
  with match_int_shorter [OF i] match_frac_shorter [OF f] match_exp_shorter [OF e]
  show ?thesis by simp
qed

text \<open>
  The text as tokens. Between tokens the scanner skips the four whitespace characters
  \<^verbatim>\<open>' \t\n\r'\<close>; besides the JSON literals it reads \<^verbatim>\<open>NaN\<close>, \<^verbatim>\<open>Infinity\<close> and
  \<^verbatim>\<open>-Infinity\<close>. \<open>None\<close> is a \<^verbatim>\<open>JSONDecodeError\<close>.
\<close>

definition push :: "tok \<Rightarrow> tok list option \<Rightarrow> tok list option" where
  "push t r = map_option (Cons t) r"

function tokens :: "str \<Rightarrow> tok list option" where
  "tokens [] = Some []"
| "tokens (c # cs) =
     (if is_ws c then tokens cs
      else if c = 0x7B then push TLBrace (tokens cs)
      else if c = 0x7D then push TRBrace (tokens cs)
      else if c = 0x5B then push TLBrack (tokens cs)
      else if c = 0x5D then push TRBrack (tokens cs)
      else if c = 0x3A then push TColon (tokens cs)
      else if c = 0x2C then push TComma (tokens cs)
      else if c = 0x22 then
        (case scanstring cs of None \<Rightarrow> None | Some (x, r) \<Rightarrow> push (TStr x) (tokens r))
      else if c # take 3 cs = lit ''null'' then push (TValue JNull) (tokens (drop 3 cs))
      else if c # take 3 cs = lit ''true'' then push (TValue (JBool True)) (tokens (drop 3 cs))
      else if c # take 4 cs = lit ''false'' then push (TValue (JBool False)) (tokens (drop 4 cs))
      else if c # take 2 cs = lit ''NaN'' then push (TValue JNaN) (tokens (drop 2 cs))
      else if c # take 7 cs = lit ''Infinity'' then push (TValue JInfinity) (tokens (drop 7 cs))
      else if c # take 8 cs = lit ''-Infinity'' then push (TValue JNegInfinity) (tokens (drop 8 cs))
      else (case match_number (c # cs) of
              None \<Rightarrow> None
            | Some (v, r) \<Rightarrow> push (TValue v) (tokens r)))"
  by pat_completeness auto
termination
proof (relation "measure length", goal_cases)
  case 1
  show ?case by simp
next
  case (9 c cs x2 x y)
  then show ?case by (auto dest: scanstring_shorter)
next
  case (16 c cs x2 x y)
  then show ?case by (auto dest: match_number_shorter)
qed simp_all

text \<open>
  The grammar, as a stack machine over the tokens: a frame for every array or object
  that is open. \<open>dict_set\<close> is the assignment \<^verbatim>\<open>d[k] = v\<close> on a dictionary in insertion
  order, so that of two equal keys of an object the last value stays, at the place of
  the first.
\<close>

fun dict_set :: "str \<Rightarrow> 'v \<Rightarrow> (str \<times> 'v) list \<Rightarrow> (str \<times> 'v) list" where
  "dict_set k v [] = [(k, v)]"
| "dict_set k v (p # ps) = (if fst p = k then (k, v) # ps else p # dict_set k v ps)"

definition dict_of :: "(str \<times> 'v) list \<Rightarrow> (str \<times> 'v) list" where
  "dict_of pairs = foldl (\<lambda>d (k, v). dict_set k v d) [] pairs"

datatype frame = FArr "json list" | FObj "(str \<times> json) list" str

datatype pstate =
  SValue "frame list"
  | SArrStart "frame list"
  | SObjStart "frame list"
  | SKey "(str \<times> json) list" "frame list"
  | SColon "(str \<times> json) list" str "frame list"
  | SArrNext "json list" "frame list"
  | SObjNext "(str \<times> json) list" "frame list"
  | SDone json

fun deliver :: "json \<Rightarrow> frame list \<Rightarrow> pstate" where
  "deliver v [] = SDone v"
| "deliver v (FArr elems # fs) = SArrNext (v # elems) fs"
| "deliver v (FObj pairs k # fs) = SObjNext ((k, v) # pairs) fs"

fun start_value :: "frame list \<Rightarrow> tok \<Rightarrow> pstate option" where
  "start_value fs (TValue v) = Some (deliver v fs)"
| "start_value fs (TStr x) = Some (deliver (JStr x) fs)"
| "start_value fs TLBrack = Some (SArrStart fs)"
| "start_value fs TLBrace = Some (SObjStart fs)"
| "start_value fs _ = None"

fun step :: "pstate \<Rightarrow> tok \<Rightarrow> pstate option" where
  "step (SValue fs) t = start_value fs t"
| "step (SArrStart fs) t =
     (if t = TRBrack then Some (deliver (JArray []) fs) else start_value (FArr [] # fs) t)"
| "step (SObjStart fs) t =
     (case t of
        TRBrace \<Rightarrow> Some (deliver (JObject []) fs)
      | TStr k \<Rightarrow> Some (SColon [] k fs)
      | _ \<Rightarrow> None)"
| "step (SKey pairs fs) t = (case t of TStr k \<Rightarrow> Some (SColon pairs k fs) | _ \<Rightarrow> None)"
| "step (SColon pairs k fs) t = (if t = TColon then Some (SValue (FObj pairs k # fs)) else None)"
| "step (SArrNext elems fs) t =
     (case t of
        TComma \<Rightarrow> Some (SValue (FArr elems # fs))
      | TRBrack \<Rightarrow> Some (deliver (JArray (rev elems)) fs)
      | _ \<Rightarrow> None)"
| "step (SObjNext pairs fs) t =
     (case t of
        TComma \<Rightarrow> Some (SKey pairs fs)
      | TRBrace \<Rightarrow> Some (deliver (JObject (dict_of (rev pairs))) fs)
      | _ \<Rightarrow> None)"
| "step (SDone v) t = None"

fun run :: "pstate \<Rightarrow> tok list \<Rightarrow> pstate option" where
  "run st [] = Some st"
| "run st (t # ts) = (case step st t of None \<Rightarrow> None | Some st' \<Rightarrow> run st' ts)"

text \<open>\<^verbatim>\<open>json.loads(s)\<close>: one value, and nothing but whitespace around it.\<close>

definition json_loads :: "str \<Rightarrow> json option" where
  "json_loads s =
     (case tokens s of
        None \<Rightarrow> None
      | Some ts \<Rightarrow> (case run (SValue []) ts of Some (SDone v) \<Rightarrow> Some v | _ \<Rightarrow> None))"

subsection \<open>Writing\<close>

text \<open>\<^verbatim>\<open>str(n)\<close> for an \<^verbatim>\<open>int\<close>: decimal digits, with a minus sign below zero.\<close>

fun digits :: "nat \<Rightarrow> str" where
  "digits n = (if n < 10 then [0x30 + n] else digits (n div 10) @ [0x30 + n mod 10])"

definition str_int :: "int \<Rightarrow> str" where
  "str_int i = (if i < 0 then lit ''-'' @ digits (nat (- i)) else digits (nat i))"

text \<open>
  A string between quotes, with \<^verbatim>\<open>ensure_ascii=False\<close>: only the quote, the backslash
  and the control characters below U+0020 are escaped; every other code point, ASCII or
  not, is written as it is.
\<close>

definition hex_lower :: "nat \<Rightarrow> nat" where
  "hex_lower d = (if d < 10 then 0x30 + d else 0x57 + d)"

definition escape_char :: "nat \<Rightarrow> str" where
  "escape_char c =
     (if c = 0x22 then [0x5C, 0x22]
      else if c = 0x5C then [0x5C, 0x5C]
      else if c = 0x0A then [0x5C, 0x6E]
      else if c = 0x0D then [0x5C, 0x72]
      else if c = 0x09 then [0x5C, 0x74]
      else if c = 0x08 then [0x5C, 0x62]
      else if c = 0x0C then [0x5C, 0x66]
      else if c < 0x20 then [0x5C, 0x75, 0x30, 0x30, hex_lower (c div 16), hex_lower (c mod 16)]
      else [c])"

definition encode_basestring :: "str \<Rightarrow> str" where
  "encode_basestring s = [0x22] @ concat (map escape_char s) @ [0x22]"

text \<open>
  \<^verbatim>\<open>json.dumps(o, indent=indent, ensure_ascii=False)\<close>: an empty list or dictionary is
  \<^verbatim>\<open>[]\<close> or \<^verbatim>\<open>{}\<close>; otherwise every item stands on a line of its own, indented by
  \<open>indent\<close> spaces for each level, the items separated by a comma at the end of the line,
  a key and its value by a colon and a space.
\<close>

definition newline_indent :: "nat \<Rightarrow> nat \<Rightarrow> str" where
  "newline_indent indent level = 0x0A # replicate (indent * level) 0x20"

fun iterencode :: "(str \<Rightarrow> str) \<Rightarrow> nat \<Rightarrow> nat \<Rightarrow> json \<Rightarrow> str" where
  "iterencode floatrepr indent level JNull = lit ''null''"
| "iterencode floatrepr indent level (JBool b) = (if b then lit ''true'' else lit ''false'')"
| "iterencode floatrepr indent level (JInt i) = str_int i"
| "iterencode floatrepr indent level (JFloat x) = floatrepr x"
| "iterencode floatrepr indent level JNaN = lit ''NaN''"
| "iterencode floatrepr indent level JInfinity = lit ''Infinity''"
| "iterencode floatrepr indent level JNegInfinity = lit ''-Infinity''"
| "iterencode floatrepr indent level (JStr s) = encode_basestring s"
| "iterencode floatrepr indent level (JArray lst) =
     (if lst = [] then lit ''[]''
      else lit ''['' @ newline_indent indent (level + 1)
        @ join (lit '','' @ newline_indent indent (level + 1))
            (map (iterencode floatrepr indent (level + 1)) lst)
        @ newline_indent indent level @ lit '']'')"
| "iterencode floatrepr indent level (JObject dct) =
     (if dct = [] then lit ''{}''
      else lit ''{'' @ newline_indent indent (level + 1)
        @ join (lit '','' @ newline_indent indent (level + 1))
            (map (\<lambda>(k, v). encode_basestring k @ lit '': ''
                    @ iterencode floatrepr indent (level + 1) v) dct)
        @ newline_indent indent level @ lit ''}'')"

definition json_dumps :: "(str \<Rightarrow> str) \<Rightarrow> nat \<Rightarrow> json \<Rightarrow> str" where
  "json_dumps floatrepr indent dados = iterencode floatrepr indent 0 dados"

section \<open>Formatting a response: \<^verbatim>\<open>_formatar_resposta\<close>\<close>

text \<open>
  \<^verbatim>\<open>
  def _formatar_resposta(resposta):
      try:
          dados = json.loads(resposta)
          return json.dumps(dados, indent=4, ensure_ascii=False)
      except json.JSONDecodeError:
          return resposta
  \<close>
\<close>

definition formatar_resposta :: "(str \<Rightarrow> str) \<Rightarrow> str \<Rightarrow> str" where
  "formatar_resposta floatrepr resposta =
     (case json_loads resposta of
        Some dados \<Rightarrow> json_dumps floatrepr 4 dados
      | None \<Rightarrow> resposta)"

section \<open>Properties of \<^verbatim>\<open>_formatar_resposta\<close>\<close>






section \<open>The request: \<^verbatim>\<open>fazer_get\<close>\<close>

text \<open>
  What the call does outside its own memory is kept in a record: the class attribute
  \<^verbatim>\<open>Requisicoes.cache\<close>, a dictionary from URL to formatted response, and the list of
  the events the call produces, in order: \<open>Abre req\<close> for an attempt, in which the
  request is built and opened (lines 58 and 59), and \<open>Dorme n\<close> for \<^verbatim>\<open>time.sleep(n)\<close>.
  \<^verbatim>\<open>headers.update\<close> changes the dictionary of the caller when one is given; the model
  keeps the updated headers in the request.
\<close>

record pedido =
  req_url :: str
  req_headers :: "str \<rightharpoonup> str"
  req_timeout :: int
  req_proxy :: "(str \<rightharpoonup> str) option"

datatype evento = Abre pedido | Dorme nat

record mundo =
  cache :: "str \<rightharpoonup> str"
  eventos :: "evento list"

fun is_abre :: "evento \<Rightarrow> bool" where
  "is_abre (Abre req) = True"
| "is_abre (Dorme n) = False"

definition n_abre :: "evento list \<Rightarrow> nat" where
  "n_abre evs = length (filter is_abre evs)"

text \<open>
  The network is a parameter: what the \<open>k\<close>-th attempt of the process does for a request,
  either the bytes that \<^verbatim>\<open>read\<close> returns or the exception that \<^verbatim>\<open>Request\<close>,
  \<^verbatim>\<open>opener.open\<close> or \<^verbatim>\<open>read\<close> raises.
\<close>

datatype resposta_rede = Corpo bytes | Levanta exn

type_synonym rede = "nat \<Rightarrow> pedido \<Rightarrow> resposta_rede"

text \<open>
  The classes of \<^verbatim>\<open>urllib.error\<close>: \<^verbatim>\<open>class HTTPError(URLError, addinfourl)\<close>, so an
  \<^verbatim>\<open>HTTPError\<close> is an instance of \<^verbatim>\<open>URLError\<close> too. \<open>reason\<close> and \<open>code\<close> are the
  attributes the handler reads; it reads them only on the exceptions it catches.
\<close>

fun isinstance_URLError :: "exn \<Rightarrow> bool" where
  "isinstance_URLError (URLError r) = True"
| "isinstance_URLError (HTTPError c r) = True"
| "isinstance_URLError e = False"

fun isinstance_HTTPError :: "exn \<Rightarrow> bool" where
  "isinstance_HTTPError (HTTPError c r) = True"
| "isinstance_HTTPError e = False"

fun reason :: "exn \<Rightarrow> str" where
  "reason (URLError r) = r"
| "reason (HTTPError c r) = r"
| "reason e = []"

fun code :: "exn \<Rightarrow> int" where
  "code (HTTPError c r) = c"
| "code e = 0"

text \<open>
  \<^verbatim>\<open>
  erro_msg = f"Erro: {e.reason}" if isinstance(e, urllib.error.URLError)
             else f"Erro HTTP: {e.code} - {e.reason}"
  \<close>
\<close>

definition erro_msg :: "exn \<Rightarrow> str" where
  "erro_msg e =
     (if isinstance_URLError e then lit ''Erro: '' @ reason e
      else lit ''Erro HTTP: '' @ str_int (code e) @ lit '' - '' @ reason e)"

text \<open>The handler \<^verbatim>\<open>except (urllib.error.HTTPError, urllib.error.URLError) as e\<close>.\<close>

definition capturada :: "exn \<Rightarrow> bool" where
  "capturada e = (isinstance_HTTPError e \<or> isinstance_URLError e)"

text \<open>
  The body of the \<^verbatim>\<open>try\<close> up to the formatted response (lines 58 to 61): the request
  is opened, the body read, decoded as UTF-8 and formatted. Any of the steps may raise.
\<close>

definition abrir_e_formatar :: "(str \<Rightarrow> str) \<Rightarrow> resposta_rede \<Rightarrow> exn + str" where
  "abrir_e_formatar floatrepr r =
     (case r of
        Levanta e \<Rightarrow> Inl e
      | Corpo lido \<Rightarrow>
          (case decode_utf8 lido of
             Inl e \<Rightarrow> Inl e
           | Inr dados \<Rightarrow> Inr (formatar_resposta floatrepr dados)))"

text \<open>
  How a call ends: at one of the four \<^verbatim>\<open>return\<close> statements of \<^verbatim>\<open>fazer_get\<close> (the
  cache hit of line 36, the formatted response of line 65, the error message of line 71,
  the last line 76) or with an exception that no handler catches. \<open>valor\<close> is what the
  caller gets.
\<close>

datatype retorno =
  Retorno_cache str | Retorno_resposta str | Retorno_erro str | Retorno_final | Excecao exn

definition maximo_atingido :: str where
  "maximo_atingido = lit ''Erro: N'' @ [0xFA] @ lit ''mero m'' @ [0xE1]
     @ lit ''ximo de tentativas atingido.''"

fun valor :: "retorno \<Rightarrow> exn + str" where
  "valor (Retorno_cache s) = Inr s"
| "valor (Retorno_resposta s) = Inr s"
| "valor (Retorno_erro s) = Inr s"
| "valor Retorno_final = Inr maximo_atingido"
| "valor (Excecao e) = Inl e"

text \<open>
  The retry loop (lines 55 to 74). It ends a call with \<open>Some\<close> return or exception, or
  is left with \<open>None\<close> when its condition fails.
  \<^verbatim>\<open>
  tentativa = 0
  while tentativa < retries:
      try:
          req = urllib.request.Request(url, headers=headers)
          with opener.open(req, timeout=timeout) as resposta:
              dados = resposta.read().decode('utf-8')
              resposta_formatada = Requisicoes._formatar_resposta(dados)
              Requisicoes.cache[url] = resposta_formatada
              return resposta_formatada
      except (urllib.error.HTTPError, urllib.error.URLError) as e:
          erro_msg = ...
          if tentativa == retries - 1:
              return erro_msg
          else:
              tentativa += 1
              time.sleep(2)
  \<close>
\<close>

function laco ::
  "(str \<Rightarrow> str) \<Rightarrow> rede \<Rightarrow> pedido \<Rightarrow> int \<Rightarrow> int \<Rightarrow> mundo \<Rightarrow> retorno option \<times> mundo" where
  "laco floatrepr rede req retries tentativa w =
     (if tentativa < retries then
        (let w1 = w\<lparr>eventos := eventos w @ [Abre req]\<rparr> in
         case abrir_e_formatar floatrepr (rede (n_abre (eventos w)) req) of
           Inr resposta_formatada \<Rightarrow>
             (Some (Retorno_resposta resposta_formatada),
              w1\<lparr>cache := (cache w1)(req_url req \<mapsto> resposta_formatada)\<rparr>)
         | Inl e \<Rightarrow>
             (if capturada e then
                (if tentativa = retries - 1 then (Some (Retorno_erro (erro_msg e)), w1)
                 else laco floatrepr rede req retries (tentativa + 1)
                        (w1\<lparr>eventos := eventos w1 @ [Dorme 2]\<rparr>))
              else (Some (Excecao e), w1)))
      else (None, w))"
  by pat_completeness auto
termination
  by (relation "measure (\<lambda>(floatrepr, rede, req, retries, tentativa, w). nat (retries - tentativa))")
    auto

declare laco.simps [simp del]

text \<open>
  Lines 38 to 52: the headers (the caller's, or an empty dictionary, updated with the
  authentication header when \<^verbatim>\<open>auth\<close> is not empty) and the opener (through the proxy
  when \<^verbatim>\<open>proxy\<close> is not empty), together with the URL and the timeout of every attempt.
\<close>

fun truthy_map :: "('a \<rightharpoonup> 'b) option \<Rightarrow> bool" where
  "truthy_map None = False"
| "truthy_map (Some d) = (d \<noteq> Map.empty)"

definition montar_pedido ::
  "str \<Rightarrow> (str \<rightharpoonup> str) option \<Rightarrow> int \<Rightarrow> (str \<rightharpoonup> str) option \<Rightarrow> (str \<rightharpoonup> str) option
    \<Rightarrow> exn + pedido" where
  "montar_pedido url headers timeout proxy auth =
     (let headers = (case headers of None \<Rightarrow> Map.empty | Some h \<Rightarrow> h) in
      case (if truthy_map auth then
              (case adicionar_autenticacao (the auth) of
                 Inl e \<Rightarrow> Inl e
               | Inr autenticacao \<Rightarrow> Inr (headers ++ autenticacao))
            else Inr headers) of
        Inl e \<Rightarrow> Inl e
      | Inr headers \<Rightarrow>
          Inr \<lparr>req_url = url, req_headers = headers, req_timeout = timeout,
               req_proxy = (if truthy_map proxy then proxy else None)\<rparr>)"

text \<open>
  \<^verbatim>\<open>
  def fazer_get(url, headers=None, params=None, timeout=10, retries=3, use_cache=True,
                proxy=None, auth=None):
      if params:
          url = Requisicoes._montar_url_com_params(url, params)
      if use_cache and url in Requisicoes.cache:
          return Requisicoes.cache[url]
      ... headers, authentication, proxy, opener ...
      ... the retry loop ...
      return "Erro: Numero maximo de tentativas atingido."
  \<close>
  (the literal of the last line has its accents in the source).
\<close>

definition fazer_get ::
  "(str \<Rightarrow> str) \<Rightarrow> rede \<Rightarrow> str \<Rightarrow> (str \<rightharpoonup> str) option \<Rightarrow> (str \<times> str) list option \<Rightarrow> int
    \<Rightarrow> int \<Rightarrow> bool \<Rightarrow> (str \<rightharpoonup> str) option \<Rightarrow> (str \<rightharpoonup> str) option \<Rightarrow> mundo
    \<Rightarrow> retorno \<times> mundo" where
  "fazer_get floatrepr rede url headers params timeout retries use_cache proxy auth w =
     (let url = (if truthy params then montar_url_com_params url params else url) in
      case (if use_cache then cache w url else None) of
        Some em_cache \<Rightarrow> (Retorno_cache em_cache, w)
      | None \<Rightarrow>
          (case montar_pedido url headers timeout proxy auth of
             Inl e \<Rightarrow> (Excecao e, w)
           | Inr req \<Rightarrow>
               (case laco floatrepr rede req retries 0 w of
                  (Some r, w') \<Rightarrow> (r, w')
                | (None, w') \<Rightarrow> (Retorno_final, w'))))"

section \<open>Properties of \<^verbatim>\<open>fazer_get\<close>\<close>

subsection \<open>Before the loop\<close>

lemma adicionar_autenticacao_Inr: "\<exists>h. adicionar_autenticacao a = Inr h"
  by (simp add: adicionar_autenticacao_def decode_b64encode split: option.splits)

lemma montar_pedido_Inr:
  "\<exists>req. montar_pedido url headers timeout proxy auth = Inr req \<and> req_url req = url"
proof -
  obtain h where "adicionar_autenticacao (the auth) = Inr h"
    using adicionar_autenticacao_Inr by blast
  then show ?thesis by (auto simp: montar_pedido_def Let_def)
qed

lemma url_montada:
  "(if truthy params then montar_url_com_params url params else url)
     = montar_url_com_params url params"
  by (simp add: montar_url_com_params_def)

lemma fazer_get_sem_cache:
  assumes "(if use_cache then cache w (montar_url_com_params url params) else None) = None"
    and "montar_pedido (montar_url_com_params url params) headers timeout proxy auth = Inr req"
  shows "fazer_get floatrepr rede url headers params timeout retries use_cache proxy auth w
    = (case laco floatrepr rede req retries 0 w of
         (Some r, w') \<Rightarrow> (r, w') | (None, w') \<Rightarrow> (Retorno_final, w'))"
  using assms by (simp add: fazer_get_def url_montada)

lemma fazer_get_em_cache:
  assumes "cache w (montar_url_com_params url params) = Some r"
  shows "fazer_get floatrepr rede url headers params timeout retries True proxy auth w
    = (Retorno_cache r, w)"
  using assms by (simp add: fazer_get_def url_montada)

subsection \<open>One round of the loop\<close>

lemma laco_fora: "\<not> tentativa < retries \<Longrightarrow> laco floatrepr rede req retries tentativa w = (None, w)"
  by (simp add: laco.simps)

lemma laco_resposta:
  "tentativa < retries \<Longrightarrow> abrir_e_formatar floatrepr (rede (n_abre (eventos w)) req) = Inr s \<Longrightarrow>
   laco floatrepr rede req retries tentativa w
     = (Some (Retorno_resposta s),
        w\<lparr>eventos := eventos w @ [Abre req], cache := (cache w)(req_url req \<mapsto> s)\<rparr>)"
  by (subst laco.simps) (simp add: Let_def)

lemma laco_excecao:
  "tentativa < retries \<Longrightarrow> abrir_e_formatar floatrepr (rede (n_abre (eventos w)) req) = Inl e \<Longrightarrow>
   \<not> capturada e \<Longrightarrow>
   laco floatrepr rede req retries tentativa w
     = (Some (Excecao e), w\<lparr>eventos := eventos w @ [Abre req]\<rparr>)"
  by (subst laco.simps) (simp add: Let_def)

lemma laco_ultima:
  "tentativa < retries \<Longrightarrow> abrir_e_formatar floatrepr (rede (n_abre (eventos w)) req) = Inl e \<Longrightarrow>
   capturada e \<Longrightarrow> tentativa = retries - 1 \<Longrightarrow>
   laco floatrepr rede req retries tentativa w
     = (Some (Retorno_erro (erro_msg e)), w\<lparr>eventos := eventos w @ [Abre req]\<rparr>)"
  by (subst laco.simps) (simp add: Let_def)

lemma laco_repete:
  "tentativa < retries \<Longrightarrow> abrir_e_formatar floatrepr (rede (n_abre (eventos w)) req) = Inl e \<Longrightarrow>
   capturada e \<Longrightarrow> tentativa \<noteq> retries - 1 \<Longrightarrow>
   laco floatrepr rede req retries tentativa w
     = laco floatrepr rede req retries (tentativa + 1)
         (w\<lparr>eventos := eventos w @ [Abre req, Dorme 2]\<rparr>)"
  by (subst laco.simps) (simp add: Let_def)

subsection \<open>The loop as a whole\<close>



lemma laco_retorna:
  "tentativa < retries \<Longrightarrow>
   \<exists>r w'. laco floatrepr rede req retries tentativa w = (Some r, w')
     \<and> ((\<exists>s. r = Retorno_resposta s) \<or> (\<exists>s. r = Retorno_erro s)
        \<or> (\<exists>e. r = Excecao e \<and> \<not> capturada e))"
proof (induction floatrepr rede req retries tentativa w rule: laco.induct)
  case (1 floatrepr rede req retries tentativa w)
  note lt = \<open>tentativa < retries\<close>
  show ?case
  proof (cases "abrir_e_formatar floatrepr (rede (n_abre (eventos w)) req)")
    case (Inr s)
    from lt Inr show ?thesis by (simp add: laco_resposta)
  next
    case (Inl e)
    show ?thesis
    proof (cases "capturada e")
      case False
      from lt Inl False show ?thesis by (simp add: laco_excecao)
    next
      case True
      show ?thesis
      proof (cases "tentativa = retries - 1")
        case True
        from lt Inl \<open>capturada e\<close> True show ?thesis by (simp add: laco_ultima)
      next
        case False
        with lt have "tentativa + 1 < retries" by simp
        from "1.IH" [OF lt refl Inl True False this] lt Inl True False
        show ?thesis by (simp add: laco_repete)
      qed
    qed
  qed
qed

lemma laco_cache_indep:
  "eventos w2 = eventos w \<Longrightarrow>
   fst (laco floatrepr rede req retries tentativa w2)
     = fst (laco floatrepr rede req retries tentativa w)
   \<and> eventos (snd (laco floatrepr rede req retries tentativa w2))
     = eventos (snd (laco floatrepr rede req retries tentativa w))"
proof (induction floatrepr rede req retries tentativa w arbitrary: w2 rule: laco.induct)
  case (1 floatrepr rede req retries tentativa w)
  note ev = \<open>eventos w2 = eventos w\<close>
  show ?case
  proof (cases "tentativa < retries")
    case False
    with ev show ?thesis by (simp add: laco_fora)
  next
    case lt: True
    show ?thesis
    proof (cases "abrir_e_formatar floatrepr (rede (n_abre (eventos w)) req)")
      case (Inr s)
      with lt ev show ?thesis by (simp add: laco_resposta)
    next
      case (Inl e)
      show ?thesis
      proof (cases "capturada e")
        case False
        with lt Inl ev show ?thesis by (simp add: laco_excecao)
      next
        case True
        show ?thesis
        proof (cases "tentativa = retries - 1")
          case True
          with lt Inl \<open>capturada e\<close> ev show ?thesis by (simp add: laco_ultima)
        next
          case False
          have "eventos (w2\<lparr>eventos := eventos w2 @ [Abre req, Dorme 2]\<rparr>)
              = eventos (w\<lparr>eventos := eventos w @ [Abre req]\<rparr>
                  \<lparr>eventos := eventos (w\<lparr>eventos := eventos w @ [Abre req]\<rparr>) @ [Dorme 2]\<rparr>)"
            using ev by simp
          from "1.IH" [OF lt refl Inl True False this] lt Inl True False ev
          show ?thesis by (simp add: laco_repete)
        qed
      qed
    qed
  qed
qed

lemma laco_cache:
  "cache (snd (laco floatrepr rede req retries tentativa w))
     = (case fst (laco floatrepr rede req retries tentativa w) of
          Some (Retorno_resposta s) \<Rightarrow> (cache w)(req_url req \<mapsto> s)
        | _ \<Rightarrow> cache w)"
proof (induction floatrepr rede req retries tentativa w rule: laco.induct)
  case (1 floatrepr rede req retries tentativa w)
  show ?case
  proof (cases "tentativa < retries")
    case False
    then show ?thesis by (simp add: laco_fora)
  next
    case lt: True
    show ?thesis
    proof (cases "abrir_e_formatar floatrepr (rede (n_abre (eventos w)) req)")
      case (Inr s)
      with lt show ?thesis by (simp add: laco_resposta)
    next
      case (Inl e)
      show ?thesis
      proof (cases "capturada e")
        case False
        with lt Inl show ?thesis by (simp add: laco_excecao)
      next
        case True
        show ?thesis
        proof (cases "tentativa = retries - 1")
          case True
          with lt Inl \<open>capturada e\<close> show ?thesis by (simp add: laco_ultima)
        next
          case False
          from "1.IH" [OF lt refl Inl True False]
          have "cache (snd (laco floatrepr rede req retries (tentativa + 1)
                  (w\<lparr>eventos := eventos w @ [Abre req, Dorme 2]\<rparr>)))
              = (case fst (laco floatrepr rede req retries (tentativa + 1)
                    (w\<lparr>eventos := eventos w @ [Abre req, Dorme 2]\<rparr>)) of
                  Some (Retorno_resposta s) \<Rightarrow> (cache w)(req_url req \<mapsto> s)
                | _ \<Rightarrow> cache w)"
            by (auto split: option.splits retorno.splits)
          with lt Inl True False show ?thesis by (simp add: laco_repete)
        qed
      qed
    qed
  qed
qed


subsection \<open>Calls that reach the loop\<close>

lemma fazer_get_sem_cache_fst:
  assumes "(if use_cache then cache w (montar_url_com_params url params) else None) = None"
    and "montar_pedido (montar_url_com_params url params) headers timeout proxy auth = Inr req"
  shows "fst (fazer_get floatrepr rede url headers params timeout retries use_cache proxy auth w)
    = (case fst (laco floatrepr rede req retries 0 w) of Some r \<Rightarrow> r | None \<Rightarrow> Retorno_final)"
  by (simp add: fazer_get_sem_cache [OF assms] split: prod.splits option.splits)

lemma fazer_get_sem_cache_snd:
  assumes "(if use_cache then cache w (montar_url_com_params url params) else None) = None"
    and "montar_pedido (montar_url_com_params url params) headers timeout proxy auth = Inr req"
  shows "snd (fazer_get floatrepr rede url headers params timeout retries use_cache proxy auth w)
    = snd (laco floatrepr rede req retries 0 w)"
  by (simp add: fazer_get_sem_cache [OF assms] split: prod.splits option.splits)

lemma fazer_get_ignora_cache:
  assumes "eventos w2 = eventos w"
  shows "fst (fazer_get floatrepr rede url headers params timeout retries False proxy auth w2)
    = fst (fazer_get floatrepr rede url headers params timeout retries False proxy auth w)"
proof -
  obtain req where req: "montar_pedido (montar_url_com_params url params) headers timeout proxy auth
      = Inr req"
    using montar_pedido_Inr by blast
  have "fst (laco floatrepr rede req retries 0 w2) = fst (laco floatrepr rede req retries 0 w)"
    using laco_cache_indep [OF assms] by blast
  then show ?thesis
    by (simp add: fazer_get_sem_cache_fst [OF _ req])
qed

lemma fazer_get_cache_escrita:
  "cache (snd (fazer_get floatrepr rede url headers params timeout retries False proxy auth w))
    = (case fst (fazer_get floatrepr rede url headers params timeout retries False proxy auth w) of
         Retorno_resposta s \<Rightarrow> (cache w)(montar_url_com_params url params \<mapsto> s)
       | _ \<Rightarrow> cache w)"
proof -
  obtain req where req: "montar_pedido (montar_url_com_params url params) headers timeout proxy auth
      = Inr req" and u: "req_url req = montar_url_com_params url params"
    using montar_pedido_Inr by blast
  show ?thesis
  proof (cases "fst (laco floatrepr rede req retries 0 w)")
    case None
    with laco_cache [of floatrepr rede req retries 0 w] show ?thesis
      by (simp add: fazer_get_sem_cache_fst [OF _ req] fazer_get_sem_cache_snd [OF _ req])
  next
    case (Some r)
    with laco_cache [of floatrepr rede req retries 0 w] u show ?thesis
      by (cases r)
        (simp_all add: fazer_get_sem_cache_fst [OF _ req] fazer_get_sem_cache_snd [OF _ req])
  qed
qed



lemma erro_msg_capturada: "capturada e \<Longrightarrow> erro_msg e = lit ''Erro: '' @ reason e"
  by (cases e) (simp_all add: capturada_def erro_msg_def)





subsection \<open>Worlds and networks of the examples\<close>

text \<open>
  An empty cache and a cache that holds the text \<open>antigo\<close> for \<open>http://h/x\<close>; the request
  a call for that URL sends when it is given no headers, parameters, proxy or
  authentication; a network that answers every request with the body \<open>novo\<close>, one that
  answers with the single byte \<open>0xFF\<close>, one that answers with the status 404, and one
  whose second opening meets the status 503 and every other a timeout of the connection.
\<close>

definition mundo_inicial :: mundo where
  "mundo_inicial = \<lparr>cache = Map.empty, eventos = []\<rparr>"

definition mundo_com_cache :: mundo where
  "mundo_com_cache = \<lparr>cache = [lit ''http://h/x'' \<mapsto> lit ''antigo''], eventos = []\<rparr>"

definition pedido_simples :: pedido where
  "pedido_simples =
     \<lparr>req_url = lit ''http://h/x'', req_headers = Map.empty, req_timeout = 10, req_proxy = None\<rparr>"

definition rede_novo :: rede where
  "rede_novo k req = Corpo (encode_utf8 (lit ''novo''))"

definition rede_binaria :: rede where
  "rede_binaria k req = Corpo [0xFF]"

definition rede_404 :: rede where
  "rede_404 k req = Levanta (HTTPError 404 (lit ''Not Found''))"



lemma eventos_mundo_inicial: "eventos mundo_inicial = []"
  by (simp add: mundo_inicial_def)

lemma cache_mundo_inicial: "cache mundo_inicial u = None"
  by (simp add: mundo_inicial_def)


lemma montar_pedido_simples:
  "montar_pedido (montar_url_com_params (lit ''http://h/x'') None) None 10 None None
     = Inr pedido_simples"
  by (simp add: montar_pedido_def montar_url_com_params_def pedido_simples_def)

lemma formatar_resposta_novo: "formatar_resposta floatrepr (lit ''novo'') = lit ''novo''"
  by code_simp

lemma abrir_rede_novo:
  "abrir_e_formatar floatrepr (rede_novo k req) = Inr (lit ''novo'')"
proof -
  have "decode_utf8 (encode_utf8 (lit ''novo'')) = Inr (lit ''novo'')"
    by (simp add: decode_utf8_def encode_utf8_def utf8_cp_def lit_def unat_of_nat)
  then show ?thesis
    by (simp add: abrir_e_formatar_def rede_novo_def formatar_resposta_novo)
qed

lemma abrir_rede_binaria:
  "abrir_e_formatar floatrepr (rede_binaria k req) = Inl UnicodeDecodeError"
  by (simp add: abrir_e_formatar_def rede_binaria_def decode_utf8_def)

lemma abrir_rede_404:
  "abrir_e_formatar floatrepr (rede_404 k req) = Inl (HTTPError 404 (lit ''Not Found''))"
  by (simp add: abrir_e_formatar_def rede_404_def)

lemma fazer_get_rede_novo:
  "fazer_get floatrepr rede_novo (lit ''http://h/x'') None None 10 3 False None None w
     = (Retorno_resposta (lit ''novo''),
        w\<lparr>eventos := eventos w @ [Abre pedido_simples],
           cache := (cache w)(lit ''http://h/x'' \<mapsto> lit ''novo'')\<rparr>)"
  by (simp add: fazer_get_sem_cache [OF _ montar_pedido_simples] laco_resposta abrir_rede_novo
      pedido_simples_def)

lemma fazer_get_rede_404:
  "fazer_get floatrepr rede_404 (lit ''http://h/x'') None None 10 1 use_cache None None mundo_inicial
     = (Retorno_erro (lit ''Erro: Not Found''), mundo_inicial\<lparr>eventos := [Abre pedido_simples]\<rparr>)"
proof -
  have "capturada (HTTPError 404 (lit ''Not Found''))" by (simp add: capturada_def)
  moreover have "erro_msg (HTTPError 404 (lit ''Not Found'')) = lit ''Erro: Not Found''"
    by (simp add: erro_msg_def lit_def)
  ultimately show ?thesis
    by (simp add: fazer_get_sem_cache [OF _ montar_pedido_simples] cache_mundo_inicial
        laco_ultima abrir_rede_404 eventos_mundo_inicial)
qed

subsection \<open>The claims about \<^verbatim>\<open>fazer_get\<close>\<close>

text \<open>
  C1, at an input where the code and the claim part. The claim: when all attempts fail,
  a transport failure gives \<open>Erro: <reason>\<close> and an HTTP error status gives
  \<open>Erro HTTP: <status code> - <reason>\<close>. With one attempt allowed and a server that
  answers 404 Not Found, the call returns \<open>Erro: Not Found\<close>: an \<^verbatim>\<open>HTTPError\<close> is an
  instance of \<^verbatim>\<open>URLError\<close>, so the test of the handler chooses the first form for every
  exception it catches.
\<close>

theorem fazer_get_erro_http:
  "rede_404 0 pedido_simples = Levanta (HTTPError 404 (lit ''Not Found''))
   \<and> fazer_get id rede_404 (lit ''http://h/x'') None None 10 1 True None None mundo_inicial
       = (Retorno_erro (lit ''Erro: Not Found''), mundo_inicial\<lparr>eventos := [Abre pedido_simples]\<rparr>)
   \<and> lit ''Erro: Not Found'' \<noteq> lit ''Erro HTTP: 404 - Not Found''"
  by (simp add: fazer_get_rede_404 rede_404_def) (simp add: lit_def)

text \<open>
  C2, as amended. With \<open>use_cache\<close> false the cache is not read: the call ends the same
  way whatever the cache holds. It is written all the same when an attempt succeeds:
  the formatted response is stored under the assembled URL. In every other case the
  cache after the call is the cache before it.
\<close>

theorem fazer_get_sem_usar_cache:
  "fst (fazer_get floatrepr rede url headers params timeout retries False proxy auth
          (w\<lparr>cache := c\<rparr>))
     = fst (fazer_get floatrepr rede url headers params timeout retries False proxy auth w)
   \<and> cache (snd (fazer_get floatrepr rede url headers params timeout retries False proxy auth w))
     = (case fst (fazer_get floatrepr rede url headers params timeout retries False proxy auth w) of
          Retorno_resposta s \<Rightarrow> (cache w)(montar_url_com_params url params \<mapsto> s)
        | _ \<Rightarrow> cache w)"
  using fazer_get_ignora_cache [of "w\<lparr>cache := c\<rparr>" w floatrepr rede url headers params timeout
      retries proxy auth]
    fazer_get_cache_escrita [of floatrepr rede url headers params timeout retries proxy auth w]
  by simp

theorem fazer_get_sem_usar_cache_witness:
  "fst (fazer_get id rede_404 (lit ''http://h/x'') None None 10 1 False None None
          (mundo_inicial\<lparr>cache := cache mundo_com_cache\<rparr>))
     = Retorno_erro (lit ''Erro: Not Found'')
   \<and> cache (snd (fazer_get id rede_404 (lit ''http://h/x'') None None 10 1 False None None
          mundo_inicial)) = cache mundo_inicial"
  using fazer_get_sem_usar_cache [where floatrepr = id and rede = rede_404
      and url = "lit ''http://h/x''" and headers = None and params = None and timeout = 10
      and retries = 1 and proxy = None and auth = None and w = mundo_inicial
      and c = "cache mundo_com_cache"]
  by (simp add: fazer_get_rede_404)

text \<open>
  C2 as stated (with \<open>use_cache\<close> false the cache before the call equals the cache after
  it) fails: with an empty cache and a server that answers \<open>novo\<close>, the call with
  \<open>use_cache\<close> false leaves \<open>novo\<close> in the cache under the URL.
\<close>

theorem fazer_get_escreve_cache:
  "cache mundo_inicial (lit ''http://h/x'') = None
   \<and> montar_url_com_params (lit ''http://h/x'') None = lit ''http://h/x''
   \<and> fst (fazer_get id rede_novo (lit ''http://h/x'') None None 10 3 False None None mundo_inicial)
       = Retorno_resposta (lit ''novo'')
   \<and> cache (snd (fazer_get id rede_novo (lit ''http://h/x'') None None 10 3 False None None
         mundo_inicial)) (lit ''http://h/x'') = Some (lit ''novo'')"
  by (simp add: fazer_get_rede_novo cache_mundo_inicial montar_url_com_params_def)






text \<open>
  C5, as amended. For every call with \<open>retries \<ge> 1\<close> and no cache hit, the call ends
  inside the retry loop: it returns a formatted response or the error message of an
  attempt, or an exception the handler does not catch leaves the call. The return after
  the loop is never reached.
\<close>

theorem fazer_get_nunca_cai_do_laco:
  assumes "1 \<le> retries"
    and "(if use_cache then cache w (montar_url_com_params url params) else None) = None"
  shows "((\<exists>s. fst (fazer_get floatrepr rede url headers params timeout retries use_cache proxy
              auth w) = Retorno_resposta s)
      \<or> (\<exists>s. fst (fazer_get floatrepr rede url headers params timeout retries use_cache proxy
              auth w) = Retorno_erro s)
      \<or> (\<exists>e. fst (fazer_get floatrepr rede url headers params timeout retries use_cache proxy
              auth w) = Excecao e \<and> \<not> capturada e))
    \<and> fst (fazer_get floatrepr rede url headers params timeout retries use_cache proxy auth w)
        \<noteq> Retorno_final"
proof -
  obtain req where req: "montar_pedido (montar_url_com_params url params) headers timeout proxy auth
      = Inr req"
    using montar_pedido_Inr by blast
  from assms(1) have "0 < retries" by simp
  from laco_retorna [OF this, of floatrepr rede req w] obtain r w'
    where "laco floatrepr rede req retries 0 w = (Some r, w')"
      and "(\<exists>s. r = Retorno_resposta s) \<or> (\<exists>s. r = Retorno_erro s)
        \<or> (\<exists>e. r = Excecao e \<and> \<not> capturada e)"
    by blast
  with fazer_get_sem_cache [OF assms(2) req, of floatrepr rede retries]
  show ?thesis by auto
qed

theorem fazer_get_nunca_cai_do_laco_witness:
  "(1::int) \<le> 3
   \<and> cache mundo_inicial (montar_url_com_params (lit ''http://h/x'') None) = None
   \<and> fst (fazer_get id rede_novo (lit ''http://h/x'') None None 10 3 True None None mundo_inicial)
       = Retorno_resposta (lit ''novo'')
   \<and> fst (fazer_get id rede_novo (lit ''http://h/x'') None None 10 3 True None None mundo_inicial)
       \<noteq> Retorno_final"
proof -
  have h1: "(1::int) \<le> 3" by simp
  have h2: "(if True then cache mundo_inicial (montar_url_com_params (lit ''http://h/x'') None)
             else None) = None"
    by (simp add: mundo_inicial_def)
  have "fst (fazer_get id rede_novo (lit ''http://h/x'') None None 10 3 True None None mundo_inicial)
       = Retorno_resposta (lit ''novo'')"
    by (simp add: fazer_get_sem_cache [OF h2 montar_pedido_simples] laco_resposta abrir_rede_novo)
  with h1 h2 fazer_get_nunca_cai_do_laco [where retries = 3 and use_cache = True
      and w = mundo_inicial and url = "lit ''http://h/x''" and params = None and floatrepr = id
      and rede = rede_novo and headers = None and timeout = 10 and proxy = None and auth = None,
      OF h1 h2]
  show ?thesis by simp
qed

text \<open>
  C5 as stated (the call returns a formatted response or an error message) fails: when
  the body of the response is the byte \<open>0xFF\<close>, which is not UTF-8, the first attempt
  raises \<^verbatim>\<open>UnicodeDecodeError\<close>, the handler does not catch it, and the call returns
  nothing.
\<close>

theorem fazer_get_corpo_invalido:
  "(1::int) \<le> 3
   \<and> cache mundo_inicial (montar_url_com_params (lit ''http://h/x'') None) = None
   \<and> rede_binaria 0 pedido_simples = Corpo [0xFF]
   \<and> fazer_get id rede_binaria (lit ''http://h/x'') None None 10 3 True None None mundo_inicial
       = (Excecao UnicodeDecodeError, mundo_inicial\<lparr>eventos := [Abre pedido_simples]\<rparr>)"
proof -
  have h2: "(if True then cache mundo_inicial (montar_url_com_params (lit ''http://h/x'') None)
             else None) = None"
    by (simp add: mundo_inicial_def)
  have "\<not> capturada UnicodeDecodeError" by (simp add: capturada_def)
  then have "fazer_get id rede_binaria (lit ''http://h/x'') None None 10 3 True None None mundo_inicial
       = (Excecao UnicodeDecodeError, mundo_inicial\<lparr>eventos := [Abre pedido_simples]\<rparr>)"
    by (simp add: fazer_get_sem_cache [OF h2 montar_pedido_simples] laco_excecao
        abrir_rede_binaria eventos_mundo_inicial)
  with h2 show ?thesis by (simp add: rede_binaria_def)
qed

text \<open>
  C6. For every call with \<open>use_cache\<close> true whose assembled URL is in the cache, the stored
  string is what the call returns, by the first \<^verbatim>\<open>return\<close>; no request is opened, nothing
  sleeps, the cache stays as it is, and the headers, the authentication, the proxy, the
  timeout, the number of retries and the network have no part in the result.
\<close>

theorem fazer_get_cache_hit:
  assumes "cache w (montar_url_com_params url params) = Some r"
  shows "fazer_get floatrepr rede url headers params timeout retries True proxy auth w
      = (Retorno_cache r, w)
    \<and> valor (Retorno_cache r) = Inr r
    \<and> fazer_get floatrepr rede url headers params timeout retries True proxy auth w
      = fazer_get floatrepr' rede' url headers' params timeout' retries' True proxy' auth' w"
  using assms by (simp add: fazer_get_em_cache)

theorem fazer_get_cache_hit_witness:
  "cache mundo_com_cache (montar_url_com_params (lit ''http://h/x'') None) = Some (lit ''antigo'')
   \<and> fazer_get id rede_novo (lit ''http://h/x'') None None 10 3 True None None mundo_com_cache
       = (Retorno_cache (lit ''antigo''), mundo_com_cache)
   \<and> eventos mundo_com_cache = []"
  using
    fazer_get_cache_hit [where w = mundo_com_cache and url = "lit ''http://h/x''" and params = None
      and r = "lit ''antigo''" and floatrepr = id and rede = rede_novo and headers = None
      and timeout = 10 and retries = 3 and proxy = None and auth = None]
  by (simp add: mundo_com_cache_def montar_url_com_params_def)



end
